theory Spec2Isabelle
  imports Complex_Main
begin

section \<open>Data model\<close>

text \<open>
  Profits, prices and timestamps are Python floats in the source; they are modelled as
  \<^typ>\<open>real\<close> (no NaN, no rounding). The thresholds of \<^verbatim>\<open>config.py\<close> are
  read with \<^verbatim>\<open>int(os.getenv(...))\<close> and are integers.
\<close>

record config =
  ACTIVATION_THRESHOLD :: int
  TRAILING_GAP :: int
  POLL_INTERVAL :: int
  TAKE_PROFIT_PIPS :: int
  ORDER_SIZE :: int

text \<open>The values \<^verbatim>\<open>config.py\<close> takes when the environment sets none.\<close>

definition default_config :: config where
  "default_config =
     \<lparr>ACTIVATION_THRESHOLD = 20, TRAILING_GAP = 10, POLL_INTERVAL = 60,
      TAKE_PROFIT_PIPS = 70, ORDER_SIZE = 1000\<rparr>"

text \<open>\<^verbatim>\<open>COOLDOWN_PERIOD = POLL_INTERVAL * 5\<close> (trailing_stoploss_helper.py).\<close>

definition COOLDOWN_PERIOD :: "config \<Rightarrow> int" where
  "COOLDOWN_PERIOD cfg = POLL_INTERVAL cfg * 5"

text \<open>
  One element of the broker's open-trades list, with the fields the code reads:
  \<^verbatim>\<open>id\<close>, \<^verbatim>\<open>instrument\<close>, \<^verbatim>\<open>price\<close>, \<^verbatim>\<open>initialUnits\<close> and the optional
  \<^verbatim>\<open>currentUnits\<close>. The numeric fields are taken as already parsed.
\<close>

record trade =
  tr_id :: string
  tr_instrument :: string
  tr_price :: real
  tr_initialUnits :: int
  tr_currentUnits :: "int option"

datatype side = Long | Short

text \<open>The dictionary \<^verbatim>\<open>RiskManager\<close> keeps per position and as \<^verbatim>\<open>active_trade\<close>.\<close>

record position =
  pos_trade_id :: "string option"
  pos_instrument :: string
  pos_entry_price :: real
  pos_side :: side

text \<open>Requests sent to the broker, in the order they are sent.\<close>

datatype request =
    TradeClose string                   \<comment> \<open>\<^verbatim>\<open>client.request(TradeClose(tradeID))\<close> of the trailing monitor\<close>
  | ClosePut string                     \<comment> \<open>\<^verbatim>\<open>requests.put(.../trades/<id>/close)\<close> of \<^verbatim>\<open>RiskManager\<close>\<close>
  | OrderPost string int real real      \<comment> \<open>market order: instrument, units, stop-loss price, take-profit price\<close>

text \<open>
  The module-level mutable state of the process: the connection flag and the debounce
  timestamp of main.py, the \<^verbatim>\<open>RiskManager\<close>'s cached trade, the dictionaries
  \<^verbatim>\<open>peaks\<close> and \<^verbatim>\<open>recently_closed\<close> of trailing_stoploss_helper.py, the dictionary
  \<^verbatim>\<open>shared_risk_data\<close> of shared_data.py (only its \<^verbatim>\<open>predicted_profit_pips\<close>
  entry is ever read), and the requests sent so far.
\<close>

record state =
  enabled :: bool
  last_entry_time :: real
  active_trade :: "position option"
  peaks :: "string \<rightharpoonup> real"
  recently_closed :: "string \<rightharpoonup> real"
  shared_risk_data :: "string \<rightharpoonup> real"
  requests :: "request list"

text \<open>
  An external call either answers or raises. A function of the model that can let an
  exception escape returns \<open>Raised\<close> with the state at the point of the raise (the
  globals keep whatever was written before).
\<close>

datatype 'a ext = Ok 'a | Fails

datatype error = PriceFetchError | CloseRequestError | OrderRequestError | HeartbeatError

datatype outcome = Completed state | Raised error state

fun final_state :: "outcome \<Rightarrow> state" where
  "final_state (Completed s) = s"
| "final_state (Raised e s) = s"

fun has_raised :: "outcome \<Rightarrow> bool" where
  "has_raised (Completed s) = False"
| "has_raised (Raised e s) = True"

section \<open>Pip size\<close>

definition upper_char :: "char \<Rightarrow> char" where
  "upper_char c =
     (let n = (of_char c :: nat) in if 97 \<le> n \<and> n \<le> 122 then char_of (n - 32) else c)"

definition upper :: "string \<Rightarrow> string" where
  "upper s = map upper_char s"

fun is_prefix :: "string \<Rightarrow> string \<Rightarrow> bool" where
  "is_prefix [] ys = True"
| "is_prefix (x # xs) [] = False"
| "is_prefix (x # xs) (y # ys) = (x = y \<and> is_prefix xs ys)"

fun contains :: "string \<Rightarrow> string \<Rightarrow> bool" where
  "contains pat [] = (pat = [])"
| "contains pat (y # ys) = (is_prefix pat (y # ys) \<or> contains pat ys)"

text \<open>\<^verbatim>\<open>0.01 if 'JPY' in inst.upper() else 0.0001\<close>\<close>

definition pip_size :: "string \<Rightarrow> real" where
  "pip_size inst = (if contains ''JPY'' (upper inst) then 0.01 else 0.0001)"

section \<open>shared_data.py\<close>

definition clear_predicted_profit :: "string \<Rightarrow> state \<Rightarrow> state" where
  "clear_predicted_profit instrument s =
     (if instrument \<in> dom (shared_risk_data s)
      then s\<lparr>shared_risk_data := (shared_risk_data s)(instrument := None)\<rparr>
      else s)"

definition update_predicted_profit :: "string \<Rightarrow> real \<Rightarrow> state \<Rightarrow> state" where
  "update_predicted_profit instrument predicted_profit_pips s =
     s\<lparr>shared_risk_data := (shared_risk_data s)(instrument \<mapsto> predicted_profit_pips)\<rparr>"

section \<open>trailing_stoploss_helper.py\<close>

text \<open>
  What the outside world answers while one position is processed: the clock at the
  cooldown check, the price fetch, the close request, the clock inside
  \<^verbatim>\<open>close_trade_by_id\<close>.
\<close>

record feed =
  time_check :: real
  price_resp :: "real option ext"
  close_resp :: "unit ext"
  time_close :: real

text \<open>
  \<^verbatim>\<open>close_trade_by_id\<close>: the request is sent first; when it raises nothing below it runs.
\<close>

definition close_trade_by_id :: "feed \<Rightarrow> string \<Rightarrow> string \<Rightarrow> state \<Rightarrow> outcome" where
  "close_trade_by_id io trade_id instrument s =
     (let s1 = s\<lparr>requests := requests s @ [TradeClose trade_id]\<rparr> in
      case close_resp io of
        Fails \<Rightarrow> Raised CloseRequestError s1
      | Ok _ \<Rightarrow>
          Completed (clear_predicted_profit instrument
            (s1\<lparr>recently_closed := (recently_closed s1)(instrument \<mapsto> time_close io),
                peaks := (peaks s1)(trade_id := None)\<rparr>)))"

text \<open>The cooldown test at the head of the loop body.\<close>

definition in_cooldown :: "config \<Rightarrow> real \<Rightarrow> string \<Rightarrow> state \<Rightarrow> bool" where
  "in_cooldown cfg now inst s =
     (case recently_closed s inst of
        None \<Rightarrow> False
      | Some closed_at \<Rightarrow> now - closed_at < real_of_int (COOLDOWN_PERIOD cfg))"

text \<open>
  \<^verbatim>\<open>units = float(t.get('currentUnits', t.get('initialUnits', 0)))\<close> and the profit in
  pips computed from a fetched price.
\<close>

definition units_of :: "trade \<Rightarrow> int" where
  "units_of t = (case tr_currentUnits t of Some u \<Rightarrow> u | None \<Rightarrow> tr_initialUnits t)"

definition computed_profit :: "trade \<Rightarrow> real \<Rightarrow> real" where
  "computed_profit t current =
     (if units_of t > 0 then (current - tr_price t) / pip_size (tr_instrument t)
      else (tr_price t - current) / pip_size (tr_instrument t))"

text \<open>Step 2 of the loop body: \<^verbatim>\<open>old_peak = peaks.get(tid, profit)\<close>, \<^verbatim>\<open>new_peak = max(old_peak, profit)\<close>.\<close>

definition old_peak :: "state \<Rightarrow> string \<Rightarrow> real \<Rightarrow> real" where
  "old_peak s tid profit = (case peaks s tid of Some v \<Rightarrow> v | None \<Rightarrow> profit)"

definition new_peak :: "state \<Rightarrow> string \<Rightarrow> real \<Rightarrow> real" where
  "new_peak s tid profit = max (old_peak s tid profit) profit"

definition peak_tracking :: "string \<Rightarrow> real \<Rightarrow> state \<Rightarrow> state" where
  "peak_tracking tid profit s = s\<lparr>peaks := (peaks s)(tid \<mapsto> new_peak s tid profit)\<rparr>"

text \<open>Step 4: the trailing logic, run on the state that already holds the new peak.\<close>

definition trailing_logic :: "config \<Rightarrow> feed \<Rightarrow> string \<Rightarrow> string \<Rightarrow> real \<Rightarrow> real \<Rightarrow> state \<Rightarrow> outcome" where
  "trailing_logic cfg io tid inst np profit s =
     (if np \<ge> real_of_int (ACTIVATION_THRESHOLD cfg) then
        (if np - profit \<ge> real_of_int (TRAILING_GAP cfg)
         then close_trade_by_id io tid inst s
         else Completed s)
      else Completed s)"

text \<open>The loop body from the take-profit test on, once the profit is known.\<close>

definition evaluate_profit :: "config \<Rightarrow> feed \<Rightarrow> string \<Rightarrow> string \<Rightarrow> real \<Rightarrow> state \<Rightarrow> outcome" where
  "evaluate_profit cfg io tid inst profit s =
     (if profit \<ge> real_of_int (TAKE_PROFIT_PIPS cfg) then close_trade_by_id io tid inst s
      else trailing_logic cfg io tid inst (new_peak s tid profit) profit
             (peak_tracking tid profit s))"

text \<open>
  Determining the profit: the shared value when there is one, else a value computed from
  a fetched price. \<^verbatim>\<open>fetch_current_price\<close> returns \<^verbatim>\<open>None\<close> on an empty price
  list (\<open>Ok None\<close>) and raises on any HTTP or network error (\<open>Fails\<close>).
\<close>

definition determine_profit :: "feed \<Rightarrow> trade \<Rightarrow> state \<Rightarrow> real option ext" where
  "determine_profit io t s =
     (case shared_risk_data s (tr_instrument t) of
        Some shared \<Rightarrow> Ok (Some shared)
      | None \<Rightarrow>
          (case price_resp io of
             Fails \<Rightarrow> Fails
           | Ok None \<Rightarrow> Ok None
           | Ok (Some current) \<Rightarrow> Ok (Some (computed_profit t current))))"

text \<open>
  The whole body of \<^verbatim>\<open>for t in trades\<close>. \<^verbatim>\<open>continue\<close> is \<open>Completed\<close>; the loop
  has no exception handler, so a raising price fetch escapes.
\<close>

definition monitor_trade :: "config \<Rightarrow> feed \<Rightarrow> trade \<Rightarrow> state \<Rightarrow> outcome" where
  "monitor_trade cfg io t s =
     (if in_cooldown cfg (time_check io) (tr_instrument t) s then Completed s
      else case determine_profit io t s of
        Fails \<Rightarrow> Raised PriceFetchError s
      | Ok None \<Rightarrow> Completed s
      | Ok (Some profit) \<Rightarrow> evaluate_profit cfg io (tr_id t) (tr_instrument t) profit s)"

text \<open>One pass of \<^verbatim>\<open>for t in trades\<close>: an escaping exception ends the pass.\<close>

fun monitor_cycle :: "config \<Rightarrow> (trade \<times> feed) list \<Rightarrow> state \<Rightarrow> outcome" where
  "monitor_cycle cfg [] s = Completed s"
| "monitor_cycle cfg ((t, io) # rest) s =
     (case monitor_trade cfg io t s of
        Raised e s' \<Rightarrow> Raised e s'
      | Completed s' \<Rightarrow> monitor_cycle cfg rest s')"

text \<open>
  \<^verbatim>\<open>while True\<close>: each element of the list is what one iteration observes (the trades
  \<^verbatim>\<open>fetch_open_trades\<close> returned, with the feed for each). The loop never returns by
  itself; the result pairs the outcome with the number of iterations that ran to their
  end, so that an exception that ends the loop early is visible.
\<close>

fun live_trailing_stop_monitor :: "config \<Rightarrow> (trade \<times> feed) list list \<Rightarrow> state \<Rightarrow> nat \<times> outcome" where
  "live_trailing_stop_monitor cfg [] s = (0, Completed s)"
| "live_trailing_stop_monitor cfg (trades # later) s =
     (case monitor_cycle cfg trades s of
        Raised e s' \<Rightarrow> (0, Raised e s')
      | Completed s' \<Rightarrow>
          (let (n, r) = live_trailing_stop_monitor cfg later s' in (Suc n, r)))"

section \<open>risk_managment.py\<close>

text \<open>
  Python dictionaries keep insertion order; \<^verbatim>\<open>d[k] = v\<close> replaces the value of a key
  that is present, in place, and appends otherwise.
\<close>

fun dict_set :: "('k \<times> 'v) list \<Rightarrow> 'k \<Rightarrow> 'v \<Rightarrow> ('k \<times> 'v) list" where
  "dict_set [] k v = [(k, v)]"
| "dict_set ((k', v') # d) k v = (if k' = k then (k, v) # d else (k', v') # dict_set d k v)"

definition position_of :: "trade \<Rightarrow> position" where
  "position_of t =
     \<lparr>pos_trade_id = Some (tr_id t), pos_instrument = tr_instrument t,
      pos_entry_price = tr_price t,
      pos_side = (if tr_initialUnits t > 0 then Long else Short)\<rparr>"

text \<open>
  \<^verbatim>\<open>RiskManager.get_live_positions\<close>. Its argument is what \<^verbatim>\<open>fetch_open_trades\<close>
  returned (the empty list when the request failed: that function catches every
  exception). It returns the positions and caches the first one as \<^verbatim>\<open>active_trade\<close>.
\<close>

definition get_live_positions :: "trade list \<Rightarrow> state \<Rightarrow> (string \<times> position) list \<times> state" where
  "get_live_positions trades s =
     (let positions = foldl (\<lambda>d t. dict_set d (tr_instrument t) (position_of t)) [] trades in
      case positions of
        [] \<Rightarrow> (positions, s\<lparr>active_trade := None\<rparr>)
      | (k, p) # _ \<Rightarrow> (positions, s\<lparr>active_trade := Some p\<rparr>))"

datatype sig = BUY | SELL | HOLD

record signal =
  sg_instrument :: string
  sg_timeframe :: string
  sg_signal :: sig
  sg_predicted_pips :: real
  sg_trailing_pips :: real

text \<open>
  What the outside world answers during one run of the entry job: the two fetches of the
  open trades, the predictor (\<^verbatim>\<open>generate_signal(inst, granularity)\<close>, \<^verbatim>\<open>None\<close> when it
  has no model), the price fetch and the order request of \<^verbatim>\<open>confirm_trade\<close>.
\<close>

record entry_feed =
  fetch_first :: "trade list"
  fetch_second :: "trade list"
  generate_signal :: "string \<Rightarrow> string \<Rightarrow> signal option"
  order_price_resp :: "real option ext"
  order_resp :: "string option ext"

text \<open>\<^verbatim>\<open>generate_multiframe_signal\<close> (pinhead_indicator.py).\<close>

definition generate_multiframe_signal :: "(string \<Rightarrow> string \<Rightarrow> signal option) \<Rightarrow> string \<Rightarrow> string list \<Rightarrow> signal list" where
  "generate_multiframe_signal gen inst timeframes =
     List.map_filter
       (\<lambda>gran. case gen inst gran of
                  None \<Rightarrow> None
                | Some sg \<Rightarrow> if sg_signal sg \<noteq> HOLD then Some sg else None)
       timeframes"

text \<open>\<^verbatim>\<open>RiskManager.confirm_trade\<close>: stop-loss 50 pips, take-profit 70 pips.\<close>

definition confirm_trade :: "config \<Rightarrow> entry_feed \<Rightarrow> string \<Rightarrow> side \<Rightarrow> state \<Rightarrow> outcome" where
  "confirm_trade cfg io instrument sd s =
     (case order_price_resp io of
        Fails \<Rightarrow> Raised PriceFetchError s
      | Ok None \<Rightarrow> Completed s
      | Ok (Some price) \<Rightarrow>
          (let pip = pip_size instrument;
               units = (if sd = Long then ORDER_SIZE cfg else - ORDER_SIZE cfg);
               sl_price = (if sd = Long then price - 50 * pip else price + 50 * pip);
               tp_price = (if sd = Long then price + 70 * pip else price - 70 * pip);
               s1 = s\<lparr>requests := requests s @ [OrderPost instrument units sl_price tp_price]\<rparr>
           in case order_resp io of
                Fails \<Rightarrow> Raised OrderRequestError s1
              | Ok tid \<Rightarrow>
                  Completed (s1\<lparr>active_trade :=
                    Some \<lparr>pos_trade_id = tid, pos_instrument = instrument,
                          pos_entry_price = price, pos_side = sd\<rparr>\<rparr>)))"

text \<open>
  \<^verbatim>\<open>RiskManager.close_trade_by_id\<close>: a PUT whose status is only logged (\<open>Ok True\<close> is
  status 200); a network error raises.
\<close>

definition RiskManager_close_trade_by_id :: "bool ext \<Rightarrow> string option \<Rightarrow> state \<Rightarrow> outcome" where
  "RiskManager_close_trade_by_id resp trade_id s =
     (let s1 = s\<lparr>requests := requests s @ [ClosePut (case trade_id of Some i \<Rightarrow> i | None \<Rightarrow> ''None'')]\<rparr> in
      case resp of Fails \<Rightarrow> Raised CloseRequestError s1 | Ok _ \<Rightarrow> Completed s1)"

text \<open>\<^verbatim>\<open>RiskManager.update_all_positions\<close>: auto-close at +70 or -50 pips.\<close>

definition update_all_positions :: "(string \<rightharpoonup> real) \<Rightarrow> bool ext \<Rightarrow> state \<Rightarrow> outcome" where
  "update_all_positions prices resp s =
     (case active_trade s of
        None \<Rightarrow> Completed s
      | Some a \<Rightarrow>
          (case prices (pos_instrument a) of
             None \<Rightarrow> Completed s
           | Some cp \<Rightarrow>
               (let ep = pos_entry_price a;
                    profit = (if pos_side a = Long then (cp - ep) / pip_size (pos_instrument a)
                              else (ep - cp) / pip_size (pos_instrument a))
                in if profit \<ge> 70 \<or> profit \<le> - 50 then
                     (case RiskManager_close_trade_by_id resp (pos_trade_id a) s of
                        Raised e s' \<Rightarrow> Raised e s'
                      | Completed s' \<Rightarrow> Completed (s'\<lparr>active_trade := None\<rparr>))
                   else Completed s)))"

section \<open>main.py\<close>

definition INSTRUMENTS :: "string list" where
  "INSTRUMENTS =
     [''EUR_USD'', ''USD_JPY'', ''GBP_USD'', ''USD_CHF'', ''AUD_USD'', ''NZD_USD'',
      ''USD_CAD'', ''EUR_GBP'', ''EUR_JPY'', ''GBP_JPY'']"

definition ENTRY_THRESHOLD_PIPS :: real where
  "ENTRY_THRESHOLD_PIPS = 50"



text \<open>\<^verbatim>\<open>max(viable, key=lambda x: abs(x['predicted_pips']))\<close>: the first maximal element.\<close>

fun max_abs_pips :: "signal \<Rightarrow> signal list \<Rightarrow> signal" where
  "max_abs_pips best [] = best"
| "max_abs_pips best (x # xs) =
     max_abs_pips (if \<bar>sg_predicted_pips x\<bar> > \<bar>sg_predicted_pips best\<bar> then x else best) xs"

definition all_signals :: "entry_feed \<Rightarrow> signal list" where
  "all_signals io =
     concat (map (\<lambda>inst. generate_multiframe_signal (generate_signal io) inst [''M5'', ''M15'', ''H1''])
                 INSTRUMENTS)"

definition viable_signals :: "entry_feed \<Rightarrow> signal list" where
  "viable_signals io = filter (\<lambda>sg. \<bar>sg_predicted_pips sg\<bar> \<ge> ENTRY_THRESHOLD_PIPS) (all_signals io)"

definition job_multiframe :: "config \<Rightarrow> entry_feed \<Rightarrow> state \<Rightarrow> outcome" where
  "job_multiframe cfg io s =
     (if \<not> enabled s then Completed s
      else
        (let (positions, s1) = get_live_positions (fetch_first io) s in
         if positions = [] then
           (case viable_signals io of
              [] \<Rightarrow> Completed s1
            | v # vs \<Rightarrow>
                (let best = max_abs_pips v vs;
                     sd = (if sg_signal best = BUY then Long else Short)
                 in confirm_trade cfg io (sg_instrument best) sd s1))
         else Completed (snd (get_live_positions (fetch_second io) s1))))"




section \<open>test_trailing_stop.py: the second copy of the monitor\<close>

text \<open>
  The file holds a near-duplicate of the loop above, with its own dictionaries of the
  same shape. Its loop body stores the maximum and then reads \<^verbatim>\<open>peaks[tid]\<close> back
  for the retracement test (a missing key cannot occur there; the \<open>None\<close> branch
  stands for the \<^verbatim>\<open>KeyError\<close> that never happens).
\<close>

definition monitor_trade_copy :: "config \<Rightarrow> feed \<Rightarrow> trade \<Rightarrow> state \<Rightarrow> outcome" where
  "monitor_trade_copy cfg io t s =
     (let tid = tr_id t; inst = tr_instrument t in
      if in_cooldown cfg (time_check io) inst s then Completed s
      else case determine_profit io t s of
        Fails \<Rightarrow> Raised PriceFetchError s
      | Ok None \<Rightarrow> Completed s
      | Ok (Some profit_pips) \<Rightarrow>
          if profit_pips \<ge> real_of_int (TAKE_PROFIT_PIPS cfg) then close_trade_by_id io tid inst s
          else
            (let s1 = s\<lparr>peaks := (peaks s)(tid \<mapsto>
                        max (case peaks s tid of Some v \<Rightarrow> v | None \<Rightarrow> profit_pips) profit_pips)\<rparr>
             in case peaks s1 tid of
                  None \<Rightarrow> Completed s1
                | Some pk \<Rightarrow>
                    if pk \<ge> real_of_int (ACTIVATION_THRESHOLD cfg)
                       \<and> pk - profit_pips \<ge> real_of_int (TRAILING_GAP cfg)
                    then close_trade_by_id io tid inst s1
                    else Completed s1))"

section \<open>A trade observed over several cycles\<close>

text \<open>
  The profit monitor (trade_profit_monitor.py) writes the profit it computed for an
  instrument into the shared dictionary with \<^verbatim>\<open>update_predicted_profit\<close>, and the
  trailing monitor reads it from there. One observation of profit \<open>p\<close> for trade \<open>t\<close> is
  that write followed by the loop body of the trailing monitor; a sequence of
  observations ends early when an exception escapes.
\<close>

definition observe_profit :: "config \<Rightarrow> trade \<Rightarrow> real \<times> feed \<Rightarrow> state \<Rightarrow> outcome" where
  "observe_profit cfg t ob s =
     monitor_trade cfg (snd ob) t (update_predicted_profit (tr_instrument t) (fst ob) s)"

fun observe_profits :: "config \<Rightarrow> trade \<Rightarrow> (real \<times> feed) list \<Rightarrow> state \<Rightarrow> outcome" where
  "observe_profits cfg t [] s = Completed s"
| "observe_profits cfg t (ob # obs) s =
     (case observe_profit cfg t ob s of
        Raised e s' \<Rightarrow> Raised e s'
      | Completed s' \<Rightarrow> observe_profits cfg t obs s')"

text \<open>
  The entry of \<^verbatim>\<open>peaks\<close> as a function of the entry before and the profit seen:
  what \<open>peak_tracking\<close> stores, written on the dictionary entry alone.
\<close>

definition next_peak :: "real \<Rightarrow> real option \<Rightarrow> real option" where
  "next_peak p stored = Some (max (case stored of Some v \<Rightarrow> v | None \<Rightarrow> p) p)"


section \<open>Concrete inputs\<close>

text \<open>The state of the process when main.py has been loaded.\<close>

definition initial_state :: state where
  "initial_state =
     \<lparr>enabled = True, last_entry_time = 0, active_trade = None, peaks = Map.empty,
      recently_closed = Map.empty, shared_risk_data = Map.empty, requests = []\<rparr>"

text \<open>A long trade of 1000 units of EUR/USD opened at 1.1000.\<close>

definition eur_trade :: trade where
  "eur_trade =
     \<lparr>tr_id = ''17'', tr_instrument = ''EUR_USD'', tr_price = 1.1,
      tr_initialUnits = 1000, tr_currentUnits = Some 1000\<rparr>"

text \<open>A feed at clock \<open>now\<close> where every external call answers.\<close>

definition calm_feed :: "real \<Rightarrow> feed" where
  "calm_feed now =
     \<lparr>time_check = now, price_resp = Ok (Some 1.1), close_resp = Ok (), time_close = now\<rparr>"

text \<open>A feed at clock \<open>now\<close> where the price fetch raises.\<close>

definition broken_price_feed :: "real \<Rightarrow> feed" where
  "broken_price_feed now = (calm_feed now)\<lparr>price_resp := Fails\<rparr>"

text \<open>A predictor with one opinion: BUY EUR/USD on M5 for 60 pips.\<close>

definition eur_buy_signal :: signal where
  "eur_buy_signal =
     \<lparr>sg_instrument = ''EUR_USD'', sg_timeframe = ''M5'', sg_signal = BUY,
      sg_predicted_pips = 60, sg_trailing_pips = 5\<rparr>"

definition eur_predictor :: "string \<Rightarrow> string \<Rightarrow> signal option" where
  "eur_predictor inst gran =
     (if inst = ''EUR_USD'' \<and> gran = ''M5'' then Some eur_buy_signal else None)"

text \<open>An entry feed: the given open trades at both fetches, the predictor above, a price
  of 1.1000 and an order that is filled as trade 18.\<close>

definition entry_feed_with :: "trade list \<Rightarrow> entry_feed" where
  "entry_feed_with trades =
     \<lparr>fetch_first = trades, fetch_second = trades, generate_signal = eur_predictor,
      order_price_resp = Ok (Some 1.1), order_resp = Ok (Some ''18'')\<rparr>"

section \<open>Auxiliary facts\<close>

subsection \<open>Pip size of the example instrument\<close>

lemma no_jpy_in_eur_usd: "\<not> contains ''JPY'' (upper ''EUR_USD'')"
  by code_simp

lemma pip_size_eur_usd: "pip_size ''EUR_USD'' = 1 / 10000"
  by (simp add: pip_size_def no_jpy_in_eur_usd)

subsection \<open>Requests only grow, and only by closes of the trade at hand\<close>

lemma requests_close_trade_by_id:
  "requests (final_state (close_trade_by_id io tid inst s)) = requests s @ [TradeClose tid]"
  by (simp add: close_trade_by_id_def clear_predicted_profit_def Let_def split: ext.splits)

lemma requests_evaluate_profit:
  "requests (final_state (evaluate_profit cfg io tid inst p s)) = requests s
   \<or> requests (final_state (evaluate_profit cfg io tid inst p s)) = requests s @ [TradeClose tid]"
  using requests_close_trade_by_id [of io tid inst s]
    requests_close_trade_by_id [of io tid inst "peak_tracking tid p s"]
  by (simp add: evaluate_profit_def trailing_logic_def peak_tracking_def)

lemma requests_monitor_trade:
  "requests (final_state (monitor_trade cfg io t s)) = requests s
   \<or> requests (final_state (monitor_trade cfg io t s)) = requests s @ [TradeClose (tr_id t)]"
  using requests_evaluate_profit [of cfg io "tr_id t" "tr_instrument t" _ s]
  by (simp add: monitor_trade_def split: ext.splits option.splits)

lemma requests_observe_profit:
  "requests (final_state (observe_profit cfg t ob s)) = requests s
   \<or> requests (final_state (observe_profit cfg t ob s)) = requests s @ [TradeClose (tr_id t)]"
  using requests_monitor_trade [of cfg "snd ob" t "update_predicted_profit (tr_instrument t) (fst ob) s"]
  by (simp add: observe_profit_def update_predicted_profit_def)

lemma length_requests_observe_profit:
  "length (requests s) \<le> length (requests (final_state (observe_profit cfg t ob s)))"
  using requests_observe_profit [of cfg t ob s] by auto

lemma length_requests_observe_profits:
  "length (requests s) \<le> length (requests (final_state (observe_profits cfg t obs s)))"
proof (induction obs arbitrary: s)
  case Nil
  show ?case by simp
next
  case (Cons ob obs)
  show ?case
  proof (cases "observe_profit cfg t ob s")
    case (Completed s')
    with length_requests_observe_profit [of s cfg t ob] Cons.IH [of s']
    show ?thesis by simp
  next
    case (Raised e s')
    with length_requests_observe_profit [of s cfg t ob]
    show ?thesis by simp
  qed
qed

subsection \<open>One observation below the take-profit level\<close>

lemma observe_profit_unfold:
  assumes "fst ob < real_of_int (TAKE_PROFIT_PIPS cfg)"
    and "\<not> in_cooldown cfg (time_check (snd ob)) (tr_instrument t) s"
  shows "observe_profit cfg t ob s =
         trailing_logic cfg (snd ob) (tr_id t) (tr_instrument t) (new_peak s (tr_id t) (fst ob)) (fst ob)
           (peak_tracking (tr_id t) (fst ob) (update_predicted_profit (tr_instrument t) (fst ob) s))"
  using assms
  by (simp add: observe_profit_def monitor_trade_def determine_profit_def evaluate_profit_def
        update_predicted_profit_def in_cooldown_def new_peak_def old_peak_def)

lemma observe_profit_hold:
  assumes "fst ob < real_of_int (TAKE_PROFIT_PIPS cfg)"
    and "\<not> in_cooldown cfg (time_check (snd ob)) (tr_instrument t) s"
    and "\<not> (new_peak s (tr_id t) (fst ob) \<ge> real_of_int (ACTIVATION_THRESHOLD cfg)
          \<and> new_peak s (tr_id t) (fst ob) - fst ob \<ge> real_of_int (TRAILING_GAP cfg))"
  shows "\<exists>s'. observe_profit cfg t ob s = Completed s'
          \<and> requests s' = requests s
          \<and> recently_closed s' = recently_closed s
          \<and> peaks s' (tr_id t) = Some (new_peak s (tr_id t) (fst ob))"
  using assms(3) unfolding observe_profit_unfold [OF assms(1,2)]
  by (auto simp add: trailing_logic_def peak_tracking_def update_predicted_profit_def new_peak_def old_peak_def)

lemma observe_profit_close:
  assumes "fst ob < real_of_int (TAKE_PROFIT_PIPS cfg)"
    and "\<not> in_cooldown cfg (time_check (snd ob)) (tr_instrument t) s"
    and "new_peak s (tr_id t) (fst ob) \<ge> real_of_int (ACTIVATION_THRESHOLD cfg)"
    and "new_peak s (tr_id t) (fst ob) - fst ob \<ge> real_of_int (TRAILING_GAP cfg)"
  shows "requests (final_state (observe_profit cfg t ob s)) = requests s @ [TradeClose (tr_id t)]
       \<and> (case close_resp (snd ob) of
            Ok _ \<Rightarrow> observe_profit cfg t ob s = Completed (final_state (observe_profit cfg t ob s))
                    \<and> peaks (final_state (observe_profit cfg t ob s)) (tr_id t) = None
          | Fails \<Rightarrow> has_raised (observe_profit cfg t ob s)
                    \<and> peaks (final_state (observe_profit cfg t ob s)) (tr_id t)
                        = Some (new_peak s (tr_id t) (fst ob)))"
  using assms(3,4) unfolding observe_profit_unfold [OF assms(1,2)]
  by (auto simp add: trailing_logic_def peak_tracking_def update_predicted_profit_def
        close_trade_by_id_def clear_predicted_profit_def Let_def new_peak_def old_peak_def
        split: ext.splits)

subsection \<open>The stored peak along a run without a close\<close>

lemma new_peak_next_peak: "Some (new_peak s tid p) = next_peak p (peaks s tid)"
  by (simp add: new_peak_def old_peak_def next_peak_def)

lemma fold_next_peak_Some: "fold next_peak ps (Some m) = Some (fold max ps m)"
  by (induction ps arbitrary: m) (simp_all add: next_peak_def max.commute)

lemma fold_next_peak_None:
  "ps \<noteq> [] \<Longrightarrow> fold next_peak ps None = Some (Max (set ps))"
proof (cases ps)
  case Nil
  assume "ps \<noteq> []"
  with Nil show ?thesis by simp
next
  case (Cons p rest)
  have "fold next_peak ps None = fold next_peak rest (Some p)"
    by (simp add: Cons next_peak_def)
  also have "\<dots> = Some (fold max rest p)"
    by (rule fold_next_peak_Some)
  also have "fold max rest p = Max (set (p # rest))"
    by (simp only: Max.set_eq_fold)
  finally show ?thesis by (simp add: Cons)
qed

lemma observe_profits_open:
  assumes "\<forall>ob\<in>set obs. fst ob < real_of_int (TAKE_PROFIT_PIPS cfg)
             \<and> \<not> in_cooldown cfg (time_check (snd ob)) (tr_instrument t) s"
    and "requests (final_state (observe_profits cfg t obs s)) = requests s"
  shows "\<exists>s'. observe_profits cfg t obs s = Completed s'
          \<and> requests s' = requests s
          \<and> recently_closed s' = recently_closed s
          \<and> peaks s' (tr_id t) = fold next_peak (map fst obs) (peaks s (tr_id t))"
  using assms
proof (induction obs arbitrary: s)
  case Nil
  show ?case by simp
next
  case (Cons ob obs)
  from Cons.prems(1) have below: "fst ob < real_of_int (TAKE_PROFIT_PIPS cfg)"
    and cool: "\<not> in_cooldown cfg (time_check (snd ob)) (tr_instrument t) s"
    by simp_all
  let ?np = "new_peak s (tr_id t) (fst ob)"
  show ?case
  proof (cases "?np \<ge> real_of_int (ACTIVATION_THRESHOLD cfg)
                \<and> ?np - fst ob \<ge> real_of_int (TRAILING_GAP cfg)")
    case True
    with observe_profit_close [OF below cool]
    have grown: "requests (final_state (observe_profit cfg t ob s)) = requests s @ [TradeClose (tr_id t)]"
      by simp
    have "length (requests (final_state (observe_profit cfg t ob s)))
            \<le> length (requests (final_state (observe_profits cfg t (ob # obs) s)))"
      using length_requests_observe_profits [of "final_state (observe_profit cfg t ob s)" cfg t obs]
      by (cases "observe_profit cfg t ob s") simp_all
    with grown Cons.prems(2) have False by simp
    then show ?thesis ..
  next
    case False
    from observe_profit_hold [OF below cool False]
    obtain s1 where s1: "observe_profit cfg t ob s = Completed s1"
      "requests s1 = requests s" "recently_closed s1 = recently_closed s"
      "peaks s1 (tr_id t) = Some ?np"
      by blast
    have cool1: "\<forall>ob\<in>set obs. fst ob < real_of_int (TAKE_PROFIT_PIPS cfg)
             \<and> \<not> in_cooldown cfg (time_check (snd ob)) (tr_instrument t) s1"
      using Cons.prems(1) s1(3) by (simp add: in_cooldown_def)
    have req1: "requests (final_state (observe_profits cfg t obs s1)) = requests s1"
      using Cons.prems(2) s1(1,2) by simp
    from Cons.IH [OF cool1 req1]
    obtain s' where s': "observe_profits cfg t obs s1 = Completed s'"
      "requests s' = requests s1" "recently_closed s' = recently_closed s1"
      "peaks s' (tr_id t) = fold next_peak (map fst obs) (peaks s1 (tr_id t))"
      by blast
    show ?thesis
      using s1 s' by (simp add: new_peak_next_peak)
  qed
qed

lemma observe_profits_append:
  "observe_profits cfg t obs s = Completed s' \<Longrightarrow>
   observe_profits cfg t (obs @ [ob]) s = observe_profit cfg t ob s'"
proof (induction obs arbitrary: s)
  case Nil
  then show ?case by (cases "observe_profit cfg t ob s'") simp_all
next
  case (Cons a obs)
  then show ?case by (cases "observe_profit cfg t a s") simp_all
qed


subsection \<open>The second copy of the monitor behaves as the first\<close>

lemma monitor_trade_copy_agrees: "monitor_trade_copy cfg io t s = monitor_trade cfg io t s"
  by (simp add: monitor_trade_copy_def monitor_trade_def evaluate_profit_def trailing_logic_def
        peak_tracking_def new_peak_def old_peak_def Let_def split: ext.splits option.splits)

subsection \<open>What a successful close of the trailing monitor leaves behind\<close>

lemma close_trade_by_id_clears:
  assumes "close_resp io = Ok u"
  shows "shared_risk_data (final_state (close_trade_by_id io tid inst s)) inst = None
       \<and> recently_closed (final_state (close_trade_by_id io tid inst s)) inst = Some (time_close io)
       \<and> peaks (final_state (close_trade_by_id io tid inst s)) tid = None"
  using assms
  by (auto simp add: close_trade_by_id_def clear_predicted_profit_def Let_def)

subsection \<open>Reading the open positions\<close>









subsection \<open>The entry job never reads the cooldown dictionary\<close>

lemma job_multiframe_ignores_recently_closed:
  "job_multiframe cfg io (s\<lparr>recently_closed := rc\<rparr>) =
     (case job_multiframe cfg io s of
        Completed s' \<Rightarrow> Completed (s'\<lparr>recently_closed := rc\<rparr>)
      | Raised e s' \<Rightarrow> Raised e (s'\<lparr>recently_closed := rc\<rparr>))"
  by (simp add: job_multiframe_def get_live_positions_def confirm_trade_def Let_def
        split: list.splits ext.splits option.splits)

subsection \<open>The example predictor\<close>

lemma entry_feed_with_sel:
  "fetch_first (entry_feed_with trades) = trades"
  "fetch_second (entry_feed_with trades) = trades"
  "generate_signal (entry_feed_with trades) = eur_predictor"
  "order_price_resp (entry_feed_with trades) = Ok (Some 1.1)"
  "order_resp (entry_feed_with trades) = Ok (Some ''18'')"
  by (simp_all add: entry_feed_with_def)

lemma viable_eur: "viable_signals (entry_feed_with trades) = [eur_buy_signal]"
  by (simp add: viable_signals_def all_signals_def INSTRUMENTS_def generate_multiframe_signal_def
        List.map_filter_simps entry_feed_with_def eur_predictor_def eur_buy_signal_def
        ENTRY_THRESHOLD_PIPS_def)

section \<open>The claims\<close>

subsection \<open>C1: an occupied account gets no new order\<close>




subsection \<open>C2: cooldown and entry\<close>

text \<open>
  Claim C2 asks that an entry signal for an instrument closed less than the cooldown
  duration ago is suppressed. \<^verbatim>\<open>job_multiframe\<close> never reads \<^verbatim>\<open>recently_closed\<close>
  (\<open>job_multiframe_ignores_recently_closed\<close>): with EUR/USD closed at clock 1000 (so
  in cooldown at clock 1001, the period being 300 seconds), no position open and a BUY
  prediction of 60 pips for EUR/USD, the job posts a market order for EUR/USD.
\<close>

theorem entry_ignores_cooldown:
  "in_cooldown default_config 1001 ''EUR_USD'' (initial_state\<lparr>recently_closed := [''EUR_USD'' \<mapsto> 1000]\<rparr>)
   \<and> requests (final_state (job_multiframe default_config (entry_feed_with [])
        (initial_state\<lparr>recently_closed := [''EUR_USD'' \<mapsto> 1000]\<rparr>)))
     = [OrderPost ''EUR_USD'' 1000 1.095 1.107]"
  by (simp add: job_multiframe_def get_live_positions_def viable_eur confirm_trade_def
        pip_size_eur_usd initial_state_def default_config_def eur_buy_signal_def
        in_cooldown_def COOLDOWN_PERIOD_def entry_feed_with_sel)

subsection \<open>C3: the stored peak is the running maximum\<close>

text \<open>
  Claim C3: a trade is observed over the profits \<open>p0..pk\<close>, each below the take-profit
  level and each reaching the peak update (the instrument is not in cooldown), the trade
  having no peak record at the start and not having been closed by the observations
  before the last. Then after the last observation the stored peak is the maximum of
  \<open>p0..pk\<close>, unless that very observation closed the trade, in which case the record is
  gone and the close request is the one request added. The close is decided against that
  maximum (it is sent exactly when the maximum has reached the activation threshold and
  exceeds the last profit by the trailing gap), and the peak stored before the last
  observation is not above it: the record never decreases and goes only by deletion at a
  close.
\<close>

theorem stored_peak_is_running_maximum:
  assumes obs: "\<forall>ob\<in>set (obs @ [ob]). fst ob < real_of_int (TAKE_PROFIT_PIPS cfg)
             \<and> \<not> in_cooldown cfg (time_check (snd ob)) (tr_instrument t) s"
    and fresh: "peaks s (tr_id t) = None"
    and still_open: "requests (final_state (observe_profits cfg t obs s)) = requests s"
  shows "let before = final_state (observe_profits cfg t obs s);
             after = final_state (observe_profits cfg t (obs @ [ob]) s);
             m = Max (set (map fst (obs @ [ob])))
         in (peaks after (tr_id t) = Some m
               \<or> peaks after (tr_id t) = None
                  \<and> requests after = requests s @ [TradeClose (tr_id t)])
          \<and> (requests after \<noteq> requests s \<longleftrightarrow>
               m \<ge> real_of_int (ACTIVATION_THRESHOLD cfg)
             \<and> m - fst ob \<ge> real_of_int (TRAILING_GAP cfg))
          \<and> (\<forall>v. peaks before (tr_id t) = Some v \<longrightarrow> v \<le> m)"
proof -
  from obs have obs1: "\<forall>ob\<in>set obs. fst ob < real_of_int (TAKE_PROFIT_PIPS cfg)
             \<and> \<not> in_cooldown cfg (time_check (snd ob)) (tr_instrument t) s"
    by simp
  from observe_profits_open [OF obs1 still_open]
  obtain s1 where s1: "observe_profits cfg t obs s = Completed s1"
    "requests s1 = requests s" "recently_closed s1 = recently_closed s"
    "peaks s1 (tr_id t) = fold next_peak (map fst obs) (peaks s (tr_id t))"
    by blast
  let ?m = "Max (set (map fst (obs @ [ob])))"
  let ?r = "observe_profit cfg t ob s1"
  have below: "fst ob < real_of_int (TAKE_PROFIT_PIPS cfg)"
    using obs by simp
  have cool: "\<not> in_cooldown cfg (time_check (snd ob)) (tr_instrument t) s1"
    using obs s1(3) by (simp add: in_cooldown_def)
  have "Some (new_peak s1 (tr_id t) (fst ob)) = fold next_peak (map fst (obs @ [ob])) None"
    by (simp add: new_peak_next_peak s1(4) fresh)
  also have "\<dots> = Some ?m"
    by (rule fold_next_peak_None) simp
  finally have np: "new_peak s1 (tr_id t) (fst ob) = ?m"
    by simp
  have after: "observe_profits cfg t (obs @ [ob]) s = ?r"
    by (rule observe_profits_append [OF s1(1)])
  have mono: "\<forall>v. peaks s1 (tr_id t) = Some v \<longrightarrow> v \<le> ?m"
    unfolding np [symmetric] by (auto simp add: new_peak_def old_peak_def)
  have main: "(peaks (final_state ?r) (tr_id t) = Some ?m
               \<or> peaks (final_state ?r) (tr_id t) = None
                  \<and> requests (final_state ?r) = requests s @ [TradeClose (tr_id t)])
          \<and> (requests (final_state ?r) \<noteq> requests s \<longleftrightarrow>
               ?m \<ge> real_of_int (ACTIVATION_THRESHOLD cfg)
             \<and> ?m - fst ob \<ge> real_of_int (TRAILING_GAP cfg))"
  proof (cases "?m \<ge> real_of_int (ACTIVATION_THRESHOLD cfg)
                \<and> ?m - fst ob \<ge> real_of_int (TRAILING_GAP cfg)")
    case True
    with observe_profit_close [OF below cool] np s1(2)
    show ?thesis by (auto split: ext.splits)
  next
    case False
    with observe_profit_hold [OF below cool] np s1(2)
    show ?thesis by auto
  qed
  show ?thesis
    unfolding Let_def after using main mono s1(1) by simp
qed

text \<open>
  Profits 5, 25, 30 on the example trade: the stored peak is 30.
\<close>

theorem stored_peak_is_running_maximum_witness:
  "(30::real) < real_of_int (TAKE_PROFIT_PIPS default_config)
   \<and> \<not> in_cooldown default_config (time_check (calm_feed 0)) (tr_instrument eur_trade) initial_state
   \<and> \<not> in_cooldown default_config (time_check (calm_feed 60)) (tr_instrument eur_trade) initial_state
   \<and> \<not> in_cooldown default_config (time_check (calm_feed 120)) (tr_instrument eur_trade) initial_state
   \<and> peaks initial_state (tr_id eur_trade) = None
   \<and> requests (final_state (observe_profits default_config eur_trade
        [(5, calm_feed 0), (25, calm_feed 60)] initial_state)) = requests initial_state
   \<and> peaks (final_state (observe_profits default_config eur_trade
        ([(5, calm_feed 0), (25, calm_feed 60)] @ [(30, calm_feed 120)]) initial_state)) (tr_id eur_trade)
      = Some 30"
proof -
  have h1: "\<forall>ob\<in>set ([(5, calm_feed 0), (25, calm_feed 60)] @ [(30, calm_feed 120)]).
       fst ob < real_of_int (TAKE_PROFIT_PIPS default_config)
     \<and> \<not> in_cooldown default_config (time_check (snd ob)) (tr_instrument eur_trade) initial_state"
    by (simp add: default_config_def in_cooldown_def initial_state_def)
  have h2: "peaks initial_state (tr_id eur_trade) = None"
    by (simp add: initial_state_def)
  have h3: "requests (final_state (observe_profits default_config eur_trade
        [(5, calm_feed 0), (25, calm_feed 60)] initial_state)) = requests initial_state"
    by (simp add: observe_profit_def monitor_trade_def determine_profit_def evaluate_profit_def
          trailing_logic_def peak_tracking_def new_peak_def old_peak_def update_predicted_profit_def
          in_cooldown_def initial_state_def default_config_def eur_trade_def)
  have m: "Max (set (map fst ([(5, calm_feed 0), (25, calm_feed 60)] @ [(30::real, calm_feed 120)]))) = 30"
    by simp
  define after where "after = final_state (observe_profits default_config eur_trade
        ([(5, calm_feed 0), (25, calm_feed 60)] @ [(30, calm_feed 120)]) initial_state)"
  note th = stored_peak_is_running_maximum [OF h1 h2 h3, unfolded Let_def m, folded after_def]
  have hold: "\<not> (real_of_int (ACTIVATION_THRESHOLD default_config) \<le> 30
        \<and> real_of_int (TRAILING_GAP default_config) \<le> 30 - fst (30::real, calm_feed 120))"
    by (simp add: default_config_def)
  from th hold have "requests after = requests initial_state"
    by blast
  with th have "peaks after (tr_id eur_trade) = Some 30"
    by auto
  then have "peaks (final_state (observe_profits default_config eur_trade
        ([(5, calm_feed 0), (25, calm_feed 60)] @ [(30, calm_feed 120)]) initial_state)) (tr_id eur_trade)
      = Some 30"
    by (simp only: after_def)
  moreover have "(30::real) < real_of_int (TAKE_PROFIT_PIPS default_config)"
    and "\<not> in_cooldown default_config (time_check (calm_feed 0)) (tr_instrument eur_trade) initial_state"
    and "\<not> in_cooldown default_config (time_check (calm_feed 60)) (tr_instrument eur_trade) initial_state"
    and "\<not> in_cooldown default_config (time_check (calm_feed 120)) (tr_instrument eur_trade) initial_state"
    using h1 by simp_all
  ultimately show ?thesis using h2 h3 by blast
qed

subsection \<open>C4: take-profit comes first\<close>



subsection \<open>C5: the trailing trigger example\<close>



subsection \<open>C6: clean-up at a close\<close>

text \<open>
  Claim C6 asks that every close by the exit logic clears the shared profit of the
  instrument, registers a cooldown and deletes the peak record. The trailing monitor's
  \<^verbatim>\<open>close_trade_by_id\<close> does (\<open>close_trade_by_id_clears\<close>); the auto-close of
  \<^verbatim>\<open>RiskManager.update_all_positions\<close> does none of the three. The example trade at
  a price of 1.0940, 60 pips down, with a shared profit of -60 and a peak of 5 on record:
  the close request is sent and the cached trade dropped, the shared profit and the peak
  stay, and there is no cooldown.
\<close>

theorem risk_manager_close_leaves_state:
  "let s = initial_state\<lparr>active_trade := Some (position_of eur_trade),
                         peaks := [''17'' \<mapsto> 5], shared_risk_data := [''EUR_USD'' \<mapsto> - 60]\<rparr>;
       s' = final_state (update_all_positions [''EUR_USD'' \<mapsto> 1.094] (Ok True) s)
   in requests s' = [ClosePut ''17'']
    \<and> active_trade s' = None
    \<and> shared_risk_data s' ''EUR_USD'' = Some (- 60)
    \<and> recently_closed s' ''EUR_USD'' = None
    \<and> peaks s' ''17'' = Some 5"
  by (simp add: update_all_positions_def RiskManager_close_trade_by_id_def position_of_def
        eur_trade_def initial_state_def pip_size_eur_usd Let_def)

subsection \<open>C7: a failed price fetch\<close>



subsection \<open>C8: failures and the monitor loop\<close>

text \<open>
  Claim C8 asks that no failure of an external call ends a loop. The trailing monitor has
  no handler around \<^verbatim>\<open>fetch_current_price\<close>, which raises on an HTTP or network
  error: with the example trade open and the price fetch raising in the first iteration,
  the loop ends before completing any iteration, and the second iteration's input is
  never read.
\<close>

theorem price_failure_ends_monitor:
  "live_trailing_stop_monitor default_config
     [[(eur_trade, broken_price_feed 0)], [(eur_trade, calm_feed 60)]] initial_state
   = (0, Raised PriceFetchError initial_state)"
  by (simp add: monitor_trade_def determine_profit_def in_cooldown_def initial_state_def
        eur_trade_def broken_price_feed_def calm_feed_def)

subsection \<open>C9: the connection flag gates both jobs\<close>



subsection \<open>C10: cooldown in the exit monitor\<close>

text \<open>
  Claim C10: when the instrument of an open position was closed less than
  \<^verbatim>\<open>COOLDOWN_PERIOD\<close> seconds before the monitor looks at it, the monitor (either
  copy) leaves the state as it was, whatever the profit: no take-profit test, no peak
  update, no close request; the pass goes on with the other positions.
\<close>

theorem cooldown_skips_position:
  assumes "recently_closed s (tr_instrument t) = Some closed_at"
    and "time_check io - closed_at < real_of_int (COOLDOWN_PERIOD cfg)"
  shows "monitor_trade cfg io t s = Completed s
       \<and> monitor_trade_copy cfg io t s = Completed s
       \<and> monitor_cycle cfg ((t, io) # rest) s = monitor_cycle cfg rest s"
  using assms by (simp add: monitor_trade_copy_agrees monitor_trade_def in_cooldown_def)

text \<open>
  A shared profit of 75, above the take-profit level, 299 seconds after a close.
\<close>

theorem cooldown_skips_position_witness:
  "recently_closed (initial_state\<lparr>recently_closed := [''EUR_USD'' \<mapsto> 1000],
        shared_risk_data := [''EUR_USD'' \<mapsto> 75]\<rparr>) (tr_instrument eur_trade) = Some 1000
   \<and> time_check (calm_feed 1299) - 1000 < real_of_int (COOLDOWN_PERIOD default_config)
   \<and> monitor_trade default_config (calm_feed 1299) eur_trade
        (initial_state\<lparr>recently_closed := [''EUR_USD'' \<mapsto> 1000],
           shared_risk_data := [''EUR_USD'' \<mapsto> 75]\<rparr>)
       = Completed (initial_state\<lparr>recently_closed := [''EUR_USD'' \<mapsto> 1000],
           shared_risk_data := [''EUR_USD'' \<mapsto> 75]\<rparr>)"
proof -
  let ?s = "initial_state\<lparr>recently_closed := [''EUR_USD'' \<mapsto> 1000],
        shared_risk_data := [''EUR_USD'' \<mapsto> 75]\<rparr>"
  have a: "recently_closed ?s (tr_instrument eur_trade) = Some 1000"
    by (simp add: eur_trade_def)
  have b: "time_check (calm_feed 1299) - 1000 < real_of_int (COOLDOWN_PERIOD default_config)"
    by (simp add: calm_feed_def COOLDOWN_PERIOD_def default_config_def)
  from cooldown_skips_position [OF a b] a b show ?thesis by simp
qed

end
